theory Spec2Isabelle
  imports Main
begin

section \<open>JavaScript values and failures\<close>

text \<open>
  The page (\<^verbatim>\<open>src/App.jsx\<close>) handles untyped JavaScript values: whatever the backend's
  JSON holds is stored in component state and read field by field while rendering.
  \<open>jsval\<close> is the part of the value space that JSON and a missing property can produce.
  An object is the list of its own properties, each key once; numbers carry an integer,
  since the page only tests them for truthiness and otherwise copies them.
\<close>

datatype jsval =
    JUndefined
  | JNull
  | JBool bool
  | JNum int
  | JStr string
  | JArr "jsval list"
  | JObj "(string \<times> jsval) list"

text \<open>
  What the code can throw: \<open>TypeError\<close> (a property read on \<^verbatim>\<open>null\<close>/\<^verbatim>\<open>undefined\<close>, a call of
  something that is no function, a \<^verbatim>\<open>fetch\<close> that cannot reach the server), \<open>SyntaxError\<close>
  (\<^verbatim>\<open>res.json()\<close> on a body that is not JSON, \<^verbatim>\<open>classList.add('')\<close>),
  \<open>InvalidCharacterError\<close> (\<^verbatim>\<open>classList.add\<close> of a token with white space) and
  \<open>ReactChildError\<close> (React refusing an object as the child of an element: "Objects are
  not valid as a React child").
\<close>

datatype error = TypeError | SyntaxError | InvalidCharacterError | ReactChildError

text \<open>A settled promise, or a computation that may throw: \<open>Inl\<close> is the rejection.\<close>

definition then_p :: "error + 'a \<Rightarrow> ('a \<Rightarrow> error + 'b) \<Rightarrow> error + 'b" where
  "then_p p f = (case p of Inl e \<Rightarrow> Inl e | Inr x \<Rightarrow> f x)"

definition catch_p :: "error + 'a \<Rightarrow> (error \<Rightarrow> error + 'a) \<Rightarrow> error + 'a" where
  "catch_p p h = (case p of Inl e \<Rightarrow> h e | Inr x \<Rightarrow> Inr x)"

text \<open>JavaScript truthiness, as \<^verbatim>\<open>&&\<close>, \<^verbatim>\<open>||\<close> and \<^verbatim>\<open>!\<close> test it.\<close>

fun truthy :: "jsval \<Rightarrow> bool" where
  "truthy JUndefined = False"
| "truthy JNull = False"
| "truthy (JBool b) = b"
| "truthy (JNum n) = (n \<noteq> 0)"
| "truthy (JStr s) = (s \<noteq> [])"
| "truthy (JArr xs) = True"
| "truthy (JObj fs) = True"

definition js_or :: "jsval \<Rightarrow> jsval \<Rightarrow> jsval" where
  "js_or a b = (if truthy a then a else b)"

fun nullish :: "jsval \<Rightarrow> bool" where
  "nullish JUndefined = True"
| "nullish JNull = True"
| "nullish v = False"

text \<open>
  \<^verbatim>\<open>v.k\<close> for a value that is not \<^verbatim>\<open>null\<close>/\<^verbatim>\<open>undefined\<close> and one of the field names the page
  reads (\<^verbatim>\<open>slug\<close>, \<^verbatim>\<open>title\<close>, \<^verbatim>\<open>tags\<close>, ...), none of which is inherited from a prototype:
  the own property, or \<^verbatim>\<open>undefined\<close>.
\<close>

fun js_get :: "jsval \<Rightarrow> string \<Rightarrow> jsval" where
  "js_get (JObj fs) k = (case map_of fs k of None \<Rightarrow> JUndefined | Some v \<Rightarrow> v)"
| "js_get v k = JUndefined"

text \<open>A string that may be \<^verbatim>\<open>null\<close> or \<^verbatim>\<open>undefined\<close> (\<^verbatim>\<open>localStorage.getItem\<close>, an
  environment variable) under \<^verbatim>\<open>||\<close> and \<^verbatim>\<open>!\<close>: the empty string is falsy too.\<close>

definition str_or :: "string option \<Rightarrow> string \<Rightarrow> string" where
  "str_or a b = (case a of None \<Rightarrow> b | Some s \<Rightarrow> if s = [] then b else s)"

definition str_not :: "string option \<Rightarrow> bool" where
  "str_not a = (case a of None \<Rightarrow> True | Some s \<Rightarrow> s = [])"

section \<open>The theme hook\<close>

text \<open>
  \<^verbatim>\<open>useTheme\<close> (lines 10-30) owns the \<open>theme\<close> state and touches two pieces of the browser:
  \<^verbatim>\<open>localStorage\<close> and the class list of the document root. The operating system's dark-mode
  signal is read once at mount (\<open>prefersDark\<close>) and later arrives as change events.
  Storage that refuses access is outside the model.
\<close>

record theme_state =
  theme :: string
  storage :: "string \<Rightarrow> string option"
  root_classes :: "string list"

definition initial_theme :: "(string \<Rightarrow> string option) \<Rightarrow> bool \<Rightarrow> string" where
  "initial_theme store prefersDark =
     str_or (store ''theme'') (if prefersDark then ''dark'' else ''light'')"

definition ascii_whitespace :: "char list" where
  "ascii_whitespace = [CHR 0x09, CHR 0x0A, CHR 0x0C, CHR 0x0D, CHR 0x20]"

definition classList_remove :: "string list \<Rightarrow> string list \<Rightarrow> string list" where
  "classList_remove ts cs = filter (\<lambda>c. c \<notin> set ts) cs"

definition classList_add :: "string \<Rightarrow> string list \<Rightarrow> error + string list" where
  "classList_add t cs =
     (if t = [] then Inl SyntaxError
      else if list_ex (\<lambda>c. c \<in> set ascii_whitespace) t then Inl InvalidCharacterError
      else Inr (if t \<in> set cs then cs else cs @ [t]))"

text \<open>The first effect (lines 13-18): it runs after mount and after every change of \<open>theme\<close>.\<close>

definition theme_effect :: "theme_state \<Rightarrow> error + theme_state" where
  "theme_effect st =
     then_p (classList_add (theme st) (classList_remove [''light'', ''dark''] (root_classes st)))
       (\<lambda>cs. Inr (st\<lparr>root_classes := cs, storage := (storage st)(''theme'' \<mapsto> theme st)\<rparr>))"

text \<open>Mounting the hook: the state initialiser of line 12, then the effect.\<close>

definition useTheme_mount ::
    "(string \<Rightarrow> string option) \<Rightarrow> string list \<Rightarrow> bool \<Rightarrow> error + theme_state" where
  "useTheme_mount store classes prefersDark =
     theme_effect \<lparr>theme = initial_theme store prefersDark, storage = store, root_classes = classes\<rparr>"

text \<open>\<^verbatim>\<open>setTheme(t)\<close>: React keeps the state when the value is the same, and otherwise
  renders again and runs the effect that depends on \<open>theme\<close>.\<close>

definition setTheme :: "string \<Rightarrow> theme_state \<Rightarrow> error + theme_state" where
  "setTheme t st = (if t = theme st then Inr st else theme_effect (st\<lparr>theme := t\<rparr>))"

text \<open>The handler of the operating system's change event (lines 21-25).\<close>

definition os_change :: "bool \<Rightarrow> theme_state \<Rightarrow> error + theme_state" where
  "os_change matches st =
     (if str_not (storage st ''theme'') then setTheme (if matches then ''dark'' else ''light'') st
      else Inr st)"

text \<open>The two theme buttons of the navigation bar (lines 63 and 76).\<close>

definition toggle :: "string \<Rightarrow> string" where
  "toggle t = (if t = ''dark'' then ''light'' else ''dark'')"

definition click_toggle :: "theme_state \<Rightarrow> error + theme_state" where
  "click_toggle st = setTheme (toggle (theme st)) st"

datatype theme_event = SetTheme string | OsChange bool

fun theme_step :: "theme_event \<Rightarrow> theme_state \<Rightarrow> error + theme_state" where
  "theme_step (SetTheme t) st = setTheme t st"
| "theme_step (OsChange m) st = os_change m st"

fun run_events :: "theme_state \<Rightarrow> theme_event list \<Rightarrow> error + theme_state" where
  "run_events st [] = Inr st"
| "run_events st (e # es) = then_p (theme_step e st) (\<lambda>st'. run_events st' es)"

text \<open>What the effect establishes: the theme is a non-empty token and storage holds it.\<close>

definition persisted :: "theme_state \<Rightarrow> bool" where
  "persisted st = (theme st \<noteq> [] \<and> storage st ''theme'' = Some (theme st))"

section \<open>The navigation bar\<close>

text \<open>
  \<^verbatim>\<open>Nav\<close> (lines 32-83) keeps whether the mobile menu is open, the flag \<open>scrollUp\<close> that the
  bar's opacity follows (line 54), and the last vertical scroll offset it has seen. Offsets
  are pixels; only their order is used.
\<close>

record nav_state =
  menu_open :: bool
  scrollUp :: bool
  lastY :: int

definition nav_init :: nav_state where
  "nav_init = \<lparr>menu_open = False, scrollUp = True, lastY = 0\<rparr>"

text \<open>The scroll listener (lines 37-41); \<open>y\<close> is \<^verbatim>\<open>window.scrollY\<close> at the event.\<close>

definition onScroll :: "int \<Rightarrow> nav_state \<Rightarrow> nav_state" where
  "onScroll y st = st\<lparr>scrollUp := (y < lastY st), lastY := y\<rparr>"

definition nav_shown :: "nav_state \<Rightarrow> bool" where
  "nav_shown st = scrollUp st"

definition click_menu :: "nav_state \<Rightarrow> nav_state" where
  "click_menu st = st\<lparr>menu_open := \<not> menu_open st\<rparr>"

definition click_menu_item :: "nav_state \<Rightarrow> nav_state" where
  "click_menu_item st = st\<lparr>menu_open := False\<rparr>"

text \<open>
  The bar's visibility as the specification words it, for a scroll delta (new offset minus
  previous offset, negative when scrolling up): shown when the delta is upward or zero,
  hidden when it is downward.
\<close>

definition spec_shown_for_delta :: "int \<Rightarrow> bool" where
  "spec_shown_for_delta d = (d \<le> 0)"

section \<open>Loading the collections\<close>

text \<open>
  The network is a parameter: what a \<^verbatim>\<open>GET\<close> of a URL comes to. A response carries its status
  and its body, \<open>None\<close> when the body is not JSON. The requests the page has issued are a log
  that every loader passes on: \<^verbatim>\<open>fetch(url)\<close> appends the URL it is called with and settles
  with what the network answers for that URL.
\<close>

record http_response =
  status :: nat
  body_json :: "jsval option"

datatype fetch_outcome = NetworkFailure | Responded http_response

type_synonym network = "string \<Rightarrow> fetch_outcome"

definition fetch ::
    "network \<Rightarrow> string \<Rightarrow> string list \<Rightarrow> (error + http_response) \<times> string list" where
  "fetch net url log =
     ((case net url of NetworkFailure \<Rightarrow> Inl TypeError | Responded r \<Rightarrow> Inr r), log @ [url])"

definition res_json :: "http_response \<Rightarrow> error + jsval" where
  "res_json r = (case body_json r of None \<Rightarrow> Inl SyntaxError | Some v \<Rightarrow> Inr v)"

text \<open>\<^verbatim>\<open>import.meta.env.VITE_BACKEND_URL || ''\<close>\<close>

definition backend_base :: "string option \<Rightarrow> string" where
  "backend_base env = str_or env []"

text \<open>
  \<^verbatim>\<open>Projects\<close>, lines 123-133: \<open>items\<close> is the state before (\<^verbatim>\<open>[]\<close> at mount). The result is
  how the promise of \<^verbatim>\<open>load()\<close> settles, with the state the component is left in, and the log.
\<close>

definition Projects_load ::
    "network \<Rightarrow> string option \<Rightarrow> jsval \<Rightarrow> string list \<Rightarrow> (error + jsval) \<times> string list" where
  "Projects_load net env items log =
     (let base = backend_base env;
          (res, log') = fetch net (base @ ''/api/projects'') log
      in (catch_p (then_p (then_p res res_json) (\<lambda>data. Inr data)) (\<lambda>e. Inr items), log'))"

text \<open>\<^verbatim>\<open>Experience\<close>, lines 191-197: both requests are issued before either settles; the state
  is the pair \<open>(xp, edu)\<close>.\<close>

definition Experience_load ::
    "network \<Rightarrow> string option \<Rightarrow> string list \<Rightarrow> (error + jsval \<times> jsval) \<times> string list" where
  "Experience_load net env log =
     (let base = backend_base env;
          (res1, log1) = fetch net (base @ ''/api/experience'') log;
          (res2, log2) = fetch net (base @ ''/api/education'') log1
      in (then_p (catch_p (then_p res1 res_json) (\<lambda>e. Inr (JArr [])))
            (\<lambda>a. then_p (catch_p (then_p res2 res_json) (\<lambda>e. Inr (JArr [])))
              (\<lambda>b. Inr (a, b))),
          log2))"

text \<open>\<^verbatim>\<open>Blog\<close>, lines 224-227.\<close>

definition Blog_load ::
    "network \<Rightarrow> string option \<Rightarrow> jsval \<Rightarrow> string list \<Rightarrow> (error + jsval) \<times> string list" where
  "Blog_load net env posts log =
     (let base = backend_base env;
          (res, log') = fetch net (base @ ''/api/posts'') log
      in (catch_p (then_p (then_p res res_json) (\<lambda>data. Inr data)) (\<lambda>e. Inr posts), log'))"

text \<open>Mounting the page (\<^verbatim>\<open>App\<close>, lines 271-273) runs the three sections' effects in turn;
  \<open>page_requests\<close> is the log this leaves, starting from none.\<close>

definition page_mount ::
    "network \<Rightarrow> string option \<Rightarrow> string list \<Rightarrow>
     ((error + jsval) \<times> (error + jsval \<times> jsval) \<times> (error + jsval)) \<times> string list" where
  "page_mount net env log =
     (let (p, log1) = Projects_load net env (JArr []) log;
          (x, log2) = Experience_load net env log1;
          (b, log3) = Blog_load net env (JArr []) log2
      in ((p, x, b), log3))"

definition page_requests :: "network \<Rightarrow> string option \<Rightarrow> string list" where
  "page_requests net env = snd (page_mount net env [])"

text \<open>The four logical endpoints, and the failures the specification lists: a network
  error, a body that is not JSON, a status outside 200-299.\<close>

datatype endpoint = Projects | Experience | Education | Posts

fun endpoint_name :: "endpoint \<Rightarrow> string" where
  "endpoint_name Projects = ''projects''"
| "endpoint_name Experience = ''experience''"
| "endpoint_name Education = ''education''"
| "endpoint_name Posts = ''posts''"

definition http_ok :: "nat \<Rightarrow> bool" where
  "http_ok s = (200 \<le> s \<and> s \<le> 299)"

definition spec_fetch_failure :: "fetch_outcome \<Rightarrow> bool" where
  "spec_fetch_failure out =
     (case out of NetworkFailure \<Rightarrow> True
      | Responded r \<Rightarrow> body_json r = None \<or> \<not> http_ok (status r))"

text \<open>The failures the code reacts to: nothing came back, or the body did not parse.\<close>

definition no_json :: "fetch_outcome \<Rightarrow> bool" where
  "no_json out = (case out of NetworkFailure \<Rightarrow> True | Responded r \<Rightarrow> body_json r = None)"

text \<open>A response of any status whose body is the JSON value \<open>v\<close>.\<close>

definition json_body :: "fetch_outcome \<Rightarrow> jsval \<Rightarrow> bool" where
  "json_body out v = (case out of NetworkFailure \<Rightarrow> False | Responded r \<Rightarrow> body_json r = Some v)"

text \<open>What one of the two requests of \<^verbatim>\<open>Experience\<close> contributes to the state: the value of
  \<^verbatim>\<open>fetch(...).then(r=>r.json()).catch(()=>[])\<close> for an outcome.\<close>

definition json_or_empty :: "fetch_outcome \<Rightarrow> jsval" where
  "json_or_empty out =
     (case out of NetworkFailure \<Rightarrow> JArr []
      | Responded r \<Rightarrow> (case body_json r of None \<Rightarrow> JArr [] | Some v \<Rightarrow> v))"

section \<open>Rendering the sections\<close>

text \<open>
  Rendering has two steps. The component function runs and returns its element tree; of each
  element the model keeps what depends on the data. \<^verbatim>\<open>xs.map(f)\<close> on a state value throws
  there when the value is no array (nothing else has a callable \<^verbatim>\<open>map\<close>), and reading a
  field of \<^verbatim>\<open>null\<close> or \<^verbatim>\<open>undefined\<close> throws. Then React mounts the tree, element by element:
  a child \<^verbatim>\<open>{v}\<close> may be a string or a number (text), \<^verbatim>\<open>null\<close>, \<^verbatim>\<open>undefined\<close> or a boolean
  (nothing), or an array of such children; an object is refused with an error. Keys and
  attributes are turned into strings and never throw.
\<close>

fun map_result :: "('a \<Rightarrow> error + 'b) \<Rightarrow> 'a list \<Rightarrow> error + 'b list" where
  "map_result f [] = Inr []"
| "map_result f (x # xs) = then_p (f x) (\<lambda>y. then_p (map_result f xs) (\<lambda>ys. Inr (y # ys)))"

definition array_map :: "(jsval \<Rightarrow> error + 'b) \<Rightarrow> jsval \<Rightarrow> error + 'b list" where
  "array_map f v = (case v of JArr xs \<Rightarrow> map_result f xs | _ \<Rightarrow> Inl TypeError)"

fun valid_child :: "jsval \<Rightarrow> bool" where
  "valid_child (JObj fs) = False"
| "valid_child (JArr xs) = list_all valid_child xs"
| "valid_child v = True"

definition mount_children :: "jsval list \<Rightarrow> 'a \<Rightarrow> error + 'a" where
  "mount_children vs el = (if list_all valid_child vs then Inr el else Inl ReactChildError)"

text \<open>\<^verbatim>\<open>v && <a href={v}>...</a>\<close>: the link, or the falsy value itself in its place (every
  falsy value is a valid child).\<close>

datatype slot = Skipped jsval | Anchor jsval

definition and_link :: "jsval \<Rightarrow> slot" where
  "and_link v = (if truthy v then Anchor v else Skipped v)"


record project_card =
  card_key :: jsval
  card_title :: jsval
  card_summary :: jsval
  live_link :: slot
  repo_link :: slot

text \<open>The \<^verbatim>\<open>article\<close> element of one project (lines 138-146), as the callback of
  \<^verbatim>\<open>items.map\<close> builds it.\<close>

definition project_element :: "jsval \<Rightarrow> error + project_card" where
  "project_element p =
     (if nullish p then Inl TypeError
      else Inr \<lparr>card_key = js_get p ''slug'', card_title = js_get p ''title'',
                card_summary = js_get p ''summary'',
                live_link = and_link (js_get p ''demo_url''),
                repo_link = and_link (js_get p ''repo_url'')\<rparr>)"

text \<open>Mounting it: the title is the child of the \<^verbatim>\<open>h3\<close>, the summary the child of the \<^verbatim>\<open>p\<close>.\<close>

definition mount_project :: "project_card \<Rightarrow> error + project_card" where
  "mount_project c = mount_children [card_title c, card_summary c] c"


definition Projects_render :: "jsval \<Rightarrow> error + project_card list" where
  "Projects_render items = then_p (array_map project_element items) (map_result mount_project)"

text \<open>\<^verbatim>\<open>Chips\<close> (lines 111-119): one \<^verbatim>\<open>span\<close> per item, with the item as key, label and
  child.\<close>

datatype chip = Chip jsval

definition Chips :: "jsval \<Rightarrow> error + chip list" where
  "Chips items = then_p (array_map (\<lambda>t. Inr t) items) (map_result (\<lambda>t. mount_children [t] (Chip t)))"

record post_element =
  el_key :: jsval
  el_title :: jsval
  el_read_time :: jsval
  el_excerpt :: jsval
  el_chips_items :: jsval

record post_card =
  post_key :: jsval
  post_title :: jsval
  post_read_time :: jsval
  post_excerpt :: jsval
  post_chips :: "chip list"

text \<open>The \<^verbatim>\<open>article\<close> element of one post (lines 232-237), with \<^verbatim>\<open>p.tags || []\<close> as the
  \<^verbatim>\<open>items\<close> of its \<^verbatim>\<open>Chips\<close>.\<close>

definition post_element :: "jsval \<Rightarrow> error + post_element" where
  "post_element p =
     (if nullish p then Inl TypeError
      else Inr \<lparr>el_key = js_get p ''id'', el_title = js_get p ''title'',
                el_read_time = js_get p ''read_time'', el_excerpt = js_get p ''excerpt'',
                el_chips_items = js_or (js_get p ''tags'') (JArr [])\<rparr>)"

text \<open>Mounting it: the children of the \<^verbatim>\<open>h3\<close>, the \<^verbatim>\<open>div\<close> and the \<^verbatim>\<open>p\<close>, then the \<^verbatim>\<open>Chips\<close>
  component.\<close>

definition mount_post :: "post_element \<Rightarrow> error + post_card" where
  "mount_post el =
     then_p (mount_children [el_title el, el_read_time el, el_excerpt el] el)
       (\<lambda>el. then_p (Chips (el_chips_items el))
         (\<lambda>cs. Inr \<lparr>post_key = el_key el, post_title = el_title el,
                     post_read_time = el_read_time el, post_excerpt = el_excerpt el,
                     post_chips = cs\<rparr>))"


definition Blog_render :: "jsval \<Rightarrow> error + post_card list" where
  "Blog_render posts = then_p (array_map post_element posts) (map_result mount_post)"

record entry_row =
  row_key :: jsval
  row_start :: jsval
  row_end :: jsval
  row_what :: jsval
  row_where :: jsval
  row_summary :: jsval

text \<open>The list items of the experience and education columns (lines 205 and 213); all five
  displayed fields are children.\<close>

definition xp_element :: "jsval \<Rightarrow> error + entry_row" where
  "xp_element i =
     (if nullish i then Inl TypeError
      else Inr \<lparr>row_key = js_get i ''id'', row_start = js_get i ''start'',
                row_end = js_get i ''end'', row_what = js_get i ''role'',
                row_where = js_get i ''org'', row_summary = js_get i ''summary''\<rparr>)"

definition edu_element :: "jsval \<Rightarrow> error + entry_row" where
  "edu_element i =
     (if nullish i then Inl TypeError
      else Inr \<lparr>row_key = js_get i ''id'', row_start = js_get i ''start'',
                row_end = js_get i ''end'', row_what = js_get i ''degree'',
                row_where = js_get i ''school'', row_summary = js_get i ''summary''\<rparr>)"

definition mount_row :: "entry_row \<Rightarrow> error + entry_row" where
  "mount_row r =
     mount_children [row_start r, row_end r, row_what r, row_where r, row_summary r] r"

definition Experience_render :: "jsval \<times> jsval \<Rightarrow> error + entry_row list \<times> entry_row list" where
  "Experience_render st =
     then_p (array_map xp_element (fst st))
       (\<lambda>xs. then_p (array_map edu_element (snd st))
         (\<lambda>es. then_p (map_result mount_row xs)
           (\<lambda>xs'. then_p (map_result mount_row es) (\<lambda>es'. Inr (xs', es')))))"


section \<open>Properties of the theme hook\<close>

lemma theme_effect_persisted:
  assumes "theme_effect st = Inr st'"
  shows "persisted st'"
proof -
  from assms have "theme st \<noteq> []"
    by (auto simp: theme_effect_def then_p_def classList_add_def split: sum.splits if_splits)
  moreover from assms have "theme st' = theme st" "storage st' ''theme'' = Some (theme st)"
    by (auto simp: theme_effect_def then_p_def split: sum.splits)
  ultimately show ?thesis by (simp add: persisted_def)
qed

lemma mount_persisted: "useTheme_mount store cls pd = Inr st \<Longrightarrow> persisted st"
  unfolding useTheme_mount_def by (rule theme_effect_persisted)

lemma os_change_persisted: "persisted st \<Longrightarrow> os_change m st = Inr st"
  by (simp add: persisted_def os_change_def str_not_def)

lemma setTheme_persisted:
  "persisted st \<Longrightarrow> setTheme t st = Inr st' \<Longrightarrow> persisted st'"
  by (auto simp: setTheme_def split: if_splits dest: theme_effect_persisted)

lemma theme_step_persisted:
  "persisted st \<Longrightarrow> theme_step e st = Inr st' \<Longrightarrow> persisted st'"
  by (cases e) (auto simp: os_change_persisted dest: setTheme_persisted)

lemma run_events_persisted:
  "persisted st \<Longrightarrow> run_events st es = Inr st' \<Longrightarrow> persisted st'"
proof (induction es arbitrary: st)
  case Nil
  then show ?case by simp
next
  case (Cons e es)
  from Cons.prems(2) obtain st1 where 1: "theme_step e st = Inr st1"
    and 2: "run_events st1 es = Inr st'"
    by (auto simp: then_p_def split: sum.splits)
  from Cons.prems(1) 1 have "persisted st1" by (rule theme_step_persisted)
  then show ?case using 2 by (rule Cons.IH)
qed

text \<open>
  Since the effect of lines 13-18 stores every theme, the one derived from the operating
  system at mount included, the guard of line 22 is false from the first render on: no
  change event handled after a mount does anything.
\<close>

lemma os_change_after_mount:
  "useTheme_mount store cls pd = Inr st \<Longrightarrow> os_change m st = Inr st"
  by (rule os_change_persisted) (rule mount_persisted)

lemma theme_effect_light_dark:
  assumes "theme st \<in> {''light'', ''dark''}"
  shows "\<exists>st'. theme_effect st = Inr st' \<and> theme st' = theme st"
  using assms
  by (auto simp: theme_effect_def then_p_def classList_add_def ascii_whitespace_def)

lemma click_toggle_light_dark:
  assumes "theme st \<in> {''light'', ''dark''}"
  shows "\<exists>st'. click_toggle st = Inr st' \<and> theme st' = toggle (theme st)"
proof -
  have "toggle (theme st) \<noteq> theme st" "toggle (theme st) \<in> {''light'', ''dark''}"
    using assms by (auto simp: toggle_def)
  then show ?thesis
    using theme_effect_light_dark [of "st\<lparr>theme := toggle (theme st)\<rparr>"]
    by (simp add: click_toggle_def setTheme_def)
qed

text \<open>
  C2. A change event of the operating system that arrives before any explicit choice should
  turn the theme to the signal it carries. The code does not: with empty storage and a light
  system at mount the theme is \<open>light\<close>, the mount effect has stored it, and the handler then
  ignores the event announcing dark. The theme stays \<open>light\<close>.
\<close>

theorem os_notification_ignored_after_mount:
  "then_p (useTheme_mount Map.empty [] False) (\<lambda>s. map_sum id theme (os_change True s))
     = Inr ''light''"
  by (simp add: useTheme_mount_def theme_effect_def then_p_def classList_add_def
      classList_remove_def ascii_whitespace_def initial_theme_def str_or_def os_change_def
      str_not_def)

text \<open>
  C3. With nothing stored, the initial theme is the operating system's signal, and the
  derived value should not reach storage. The first half holds; the second does not: after
  the mount with empty storage and a dark system, storage holds \<open>dark\<close> under \<open>theme\<close>.
\<close>

theorem mount_persists_os_default:
  "Map.empty ''theme'' = (None :: string option)
   \<and> initial_theme Map.empty True = ''dark''
   \<and> map_sum id (\<lambda>s. (theme s, storage s ''theme'')) (useTheme_mount Map.empty [] True)
       = Inr (''dark'', Some ''dark'')"
  by (simp add: useTheme_mount_def theme_effect_def then_p_def classList_add_def
      classList_remove_def ascii_whitespace_def initial_theme_def str_or_def)

text \<open>
  C4. The initial theme is the stored preference when there is one, and the operating
  system's signal otherwise; a stored \<open>light\<close> wins over a dark system.
\<close>

theorem initial_theme_resolution:
  "(store ''theme'' = None \<longrightarrow> initial_theme store os = (if os then ''dark'' else ''light''))
   \<and> (p \<in> {''light'', ''dark''} \<longrightarrow> store ''theme'' = Some p \<longrightarrow> initial_theme store os = p)"
  by (auto simp: initial_theme_def str_or_def)

theorem initial_theme_resolution_witness:
  "initial_theme Map.empty True = ''dark''
   \<and> initial_theme [''theme'' \<mapsto> ''light''] True = ''light''"
  using initial_theme_resolution [of Map.empty True]
    initial_theme_resolution [of "[''theme'' \<mapsto> ''light'']" True "''light''"]
  by simp

text \<open>
  C5. In every state reached after an explicit \<open>setTheme\<close>, whatever else happened before and
  after it, a change event of the operating system leaves the state, and so the theme, as it
  is.
\<close>

theorem explicit_preference_kept:
  assumes "useTheme_mount store cls pd = Inr st0"
    and "run_events st0 (es1 @ SetTheme p # es2) = Inr st"
  shows "os_change m st = Inr st"
proof -
  from assms(1) have "persisted st0" by (rule mount_persisted)
  then have "persisted st" using assms(2) by (rule run_events_persisted)
  then show ?thesis by (rule os_change_persisted)
qed

text \<open>Mount with empty storage and a light system, choose dark, then the system announces
  light: the theme is still dark.\<close>

theorem explicit_preference_kept_witness:
  "then_p (then_p (useTheme_mount Map.empty [] False) (\<lambda>s. run_events s [SetTheme ''dark'']))
     (\<lambda>s. map_sum id theme (os_change False s)) = Inr ''dark''"
proof -
  let ?s0 = "\<lparr>theme = ''light'', storage = [''theme'' \<mapsto> ''light''], root_classes = [''light'']\<rparr>"
  let ?s1 = "\<lparr>theme = ''dark'', storage = [''theme'' \<mapsto> ''dark''], root_classes = [''dark'']\<rparr>"
  have m: "useTheme_mount Map.empty [] False = Inr ?s0"
    by (simp add: useTheme_mount_def theme_effect_def then_p_def classList_add_def
        classList_remove_def ascii_whitespace_def initial_theme_def str_or_def)
  have r: "run_events ?s0 ([] @ SetTheme ''dark'' # []) = Inr ?s1"
    by (simp add: setTheme_def theme_effect_def then_p_def classList_add_def
        classList_remove_def ascii_whitespace_def)
  have "os_change False ?s1 = Inr ?s1"
    using explicit_preference_kept [OF m r] .
  then show ?thesis using m r by (simp add: then_p_def)
qed

text \<open>
  C9. On the themes \<open>light\<close> and \<open>dark\<close> the toggle sends each to the other, so twice is the
  identity; the same holds of the state after one and two clicks on the button.
\<close>

theorem toggle_involution:
  assumes "theme st \<in> {''light'', ''dark''}"
  shows "toggle ''dark'' = ''light'' \<and> toggle ''light'' = ''dark''
    \<and> toggle (toggle (theme st)) = theme st
    \<and> (\<exists>s1 s2. click_toggle st = Inr s1 \<and> theme s1 = toggle (theme st)
          \<and> click_toggle s1 = Inr s2 \<and> theme s2 = theme st)"
proof -
  have t: "toggle ''dark'' = ''light''" "toggle ''light'' = ''dark''"
    by (simp_all add: toggle_def)
  have tt: "toggle (toggle (theme st)) = theme st"
    using assms t by auto
  obtain s1 where s1: "click_toggle st = Inr s1" "theme s1 = toggle (theme st)"
    using click_toggle_light_dark [OF assms] by blast
  have "theme s1 \<in> {''light'', ''dark''}"
    using assms s1(2) t by auto
  then obtain s2 where s2: "click_toggle s1 = Inr s2" "theme s2 = toggle (theme s1)"
    using click_toggle_light_dark by blast
  from s1 s2 tt have "theme s2 = theme st" by simp
  with t tt s1 s2 show ?thesis by blast
qed

theorem toggle_involution_witness:
  "toggle (toggle ''dark'') = ''dark''
   \<and> map_sum id theme
       (then_p (click_toggle \<lparr>theme = ''dark'', storage = [''theme'' \<mapsto> ''dark''],
          root_classes = [''dark'']\<rparr>) click_toggle) = Inr ''dark''"
proof -
  let ?s = "\<lparr>theme = ''dark'', storage = [''theme'' \<mapsto> ''dark''], root_classes = [''dark'']\<rparr>"
  have "theme ?s \<in> {''light'', ''dark''}" by simp
  from toggle_involution [OF this] show ?thesis
    by (auto simp: then_p_def)
qed

section \<open>Properties of the navigation bar\<close>

text \<open>
  C6, as amended. After a scroll event the bar is shown exactly when the new offset is
  smaller than the one of the previous event, that is, when the delta is strictly upward;
  a downward or a zero delta hides it. Nothing but the two latest offsets enters.
\<close>

theorem nav_shown_iff_strictly_up:
  "nav_shown (onScroll y st) = (y - lastY st < 0) \<and> lastY (onScroll y st) = y"
  by (simp add: nav_shown_def onScroll_def)

text \<open>The claim as stated fails at a zero delta: scroll down to 100, up to 50 (the bar
  shows), then an event at the same offset 50 hides the bar, where the specification shows
  it.\<close>

theorem zero_delta_hides_nav:
  "lastY (onScroll 50 (onScroll 100 nav_init)) = 50
   \<and> nav_shown (onScroll 50 (onScroll 100 nav_init))
   \<and> spec_shown_for_delta (50 - lastY (onScroll 50 (onScroll 100 nav_init)))
   \<and> \<not> nav_shown (onScroll 50 (onScroll 50 (onScroll 100 nav_init)))"
  by (simp add: nav_shown_def onScroll_def nav_init_def spec_shown_for_delta_def)

section \<open>Properties of the loaders\<close>

lemma Projects_load_settles:
  "fst (Projects_load net env items log) =
     (case net (backend_base env @ ''/api/projects'') of
        NetworkFailure \<Rightarrow> Inr items
      | Responded r \<Rightarrow> (case body_json r of None \<Rightarrow> Inr items | Some v \<Rightarrow> Inr v))"
  by (simp add: Projects_load_def Let_def fetch_def res_json_def then_p_def catch_p_def
      split: fetch_outcome.splits option.splits)

lemma Blog_load_settles:
  "fst (Blog_load net env posts log) =
     (case net (backend_base env @ ''/api/posts'') of
        NetworkFailure \<Rightarrow> Inr posts
      | Responded r \<Rightarrow> (case body_json r of None \<Rightarrow> Inr posts | Some v \<Rightarrow> Inr v))"
  by (simp add: Blog_load_def Let_def fetch_def res_json_def then_p_def catch_p_def
      split: fetch_outcome.splits option.splits)

lemma Experience_load_settles:
  "fst (Experience_load net env log) =
     Inr (json_or_empty (net (backend_base env @ ''/api/experience'')),
          json_or_empty (net (backend_base env @ ''/api/education'')))"
  by (simp add: Experience_load_def Let_def fetch_def res_json_def then_p_def catch_p_def
      json_or_empty_def split: fetch_outcome.splits option.splits)

lemma load_logs:
  "snd (Projects_load net env items log) = log @ [backend_base env @ ''/api/projects'']"
  "snd (Experience_load net env log) =
     log @ [backend_base env @ ''/api/experience'', backend_base env @ ''/api/education'']"
  "snd (Blog_load net env posts log) = log @ [backend_base env @ ''/api/posts'']"
  by (simp_all add: Projects_load_def Experience_load_def Blog_load_def Let_def fetch_def)

lemma page_requests_eq:
  "page_requests net env =
     [backend_base env @ ''/api/projects'', backend_base env @ ''/api/experience'',
      backend_base env @ ''/api/education'', backend_base env @ ''/api/posts'']"
  using load_logs [of net env]
  by (simp add: page_requests_def page_mount_def Let_def split_beta)

text \<open>
  C1, as amended. When a collection's request fails on the network or its body is not JSON,
  the section's state is the empty list, as after a response with the body \<^verbatim>\<open>[]\<close>, and the
  empty list renders to no items. No loader's promise ever rejects, whatever the network
  does. The status of a response is not looked at: when the body of the response to a
  collection's URL is JSON, whatever the status, the parsed body becomes the state.
\<close>

theorem failed_fetch_leaves_empty_list:
  "(no_json (net (backend_base env @ ''/api/projects'')) \<longrightarrow>
      fst (Projects_load net env (JArr []) log) = Inr (JArr []))
   \<and> (no_json (net (backend_base env @ ''/api/experience'')) \<longrightarrow>
      (\<exists>edu. fst (Experience_load net env log) = Inr (JArr [], edu)))
   \<and> (no_json (net (backend_base env @ ''/api/education'')) \<longrightarrow>
      (\<exists>xp. fst (Experience_load net env log) = Inr (xp, JArr [])))
   \<and> (no_json (net (backend_base env @ ''/api/posts'')) \<longrightarrow>
      fst (Blog_load net env (JArr []) log) = Inr (JArr []))
   \<and> (json_body (net (backend_base env @ ''/api/projects'')) v \<longrightarrow>
      fst (Projects_load net env items log) = Inr v)
   \<and> (json_body (net (backend_base env @ ''/api/experience'')) v \<longrightarrow>
      (\<exists>edu. fst (Experience_load net env log) = Inr (v, edu)))
   \<and> (json_body (net (backend_base env @ ''/api/education'')) v \<longrightarrow>
      (\<exists>xp. fst (Experience_load net env log) = Inr (xp, v)))
   \<and> (json_body (net (backend_base env @ ''/api/posts'')) v \<longrightarrow>
      fst (Blog_load net env posts log) = Inr v)
   \<and> (\<exists>s. fst (Projects_load net env items log) = Inr s)
   \<and> (\<exists>s. fst (Experience_load net env log) = Inr s)
   \<and> (\<exists>s. fst (Blog_load net env posts log) = Inr s)
   \<and> Projects_render (JArr []) = Inr []
   \<and> Experience_render (JArr [], JArr []) = Inr ([], [])
   \<and> Blog_render (JArr []) = Inr []"
proof -
  have p: "no_json (net (backend_base env @ ''/api/projects'')) \<longrightarrow>
      fst (Projects_load net env (JArr []) log) = Inr (JArr [])"
    by (simp add: Projects_load_settles no_json_def split: fetch_outcome.splits)
  have x: "no_json (net (backend_base env @ ''/api/experience'')) \<longrightarrow>
      (\<exists>edu. fst (Experience_load net env log) = Inr (JArr [], edu))"
    by (simp add: Experience_load_settles no_json_def json_or_empty_def
        split: fetch_outcome.splits)
  have e: "no_json (net (backend_base env @ ''/api/education'')) \<longrightarrow>
      (\<exists>xp. fst (Experience_load net env log) = Inr (xp, JArr []))"
    by (simp add: Experience_load_settles no_json_def json_or_empty_def
        split: fetch_outcome.splits)
  have b: "no_json (net (backend_base env @ ''/api/posts'')) \<longrightarrow>
      fst (Blog_load net env (JArr []) log) = Inr (JArr [])"
    by (simp add: Blog_load_settles no_json_def split: fetch_outcome.splits)
  have jp: "json_body (net (backend_base env @ ''/api/projects'')) v \<longrightarrow>
      fst (Projects_load net env items log) = Inr v"
    by (simp add: Projects_load_settles json_body_def split: fetch_outcome.splits)
  have jx: "json_body (net (backend_base env @ ''/api/experience'')) v \<longrightarrow>
      (\<exists>edu. fst (Experience_load net env log) = Inr (v, edu))"
    by (simp add: Experience_load_settles json_body_def json_or_empty_def
        split: fetch_outcome.splits)
  have je: "json_body (net (backend_base env @ ''/api/education'')) v \<longrightarrow>
      (\<exists>xp. fst (Experience_load net env log) = Inr (xp, v))"
    by (simp add: Experience_load_settles json_body_def json_or_empty_def
        split: fetch_outcome.splits)
  have jb: "json_body (net (backend_base env @ ''/api/posts'')) v \<longrightarrow>
      fst (Blog_load net env posts log) = Inr v"
    by (simp add: Blog_load_settles json_body_def split: fetch_outcome.splits)
  have n: "\<exists>s. fst (Projects_load net env items log) = Inr s"
    "\<exists>s. fst (Experience_load net env log) = Inr s"
    "\<exists>s. fst (Blog_load net env posts log) = Inr s"
    by (simp_all add: Projects_load_settles Experience_load_settles Blog_load_settles
        split: fetch_outcome.splits option.splits)
  have r: "Projects_render (JArr []) = Inr []"
    "Experience_render (JArr [], JArr []) = Inr ([], [])"
    "Blog_render (JArr []) = Inr []"
    by (simp_all add: Projects_render_def Experience_render_def Blog_render_def array_map_def
        then_p_def)
  from p x e b jp jx je jb n r show ?thesis by blast
qed

text \<open>A server that cannot be reached, a \<open>200\<close> whose body is not JSON, and a \<open>500\<close> whose
  body is a JSON list.\<close>

theorem failed_fetch_leaves_empty_list_witness:
  "no_json NetworkFailure \<and> no_json (Responded \<lparr>status = 200, body_json = None\<rparr>)
   \<and> json_body (Responded \<lparr>status = 500, body_json = Some (JArr [JStr ''x''])\<rparr>) (JArr [JStr ''x''])
   \<and> fst (Projects_load (\<lambda>url. NetworkFailure) None (JArr []) []) = Inr (JArr [])
   \<and> fst (Experience_load (\<lambda>url. NetworkFailure) None []) = Inr (JArr [], JArr [])
   \<and> fst (Blog_load (\<lambda>url. Responded \<lparr>status = 200, body_json = None\<rparr>) None (JArr []) [])
       = Inr (JArr [])
   \<and> fst (Projects_load (\<lambda>url. Responded \<lparr>status = 500, body_json = Some (JArr [JStr ''x''])\<rparr>)
        None (JArr []) []) = Inr (JArr [JStr ''x''])
   \<and> fst (Experience_load (\<lambda>url. Responded \<lparr>status = 500, body_json = Some (JArr [JStr ''x''])\<rparr>)
        None []) = Inr (JArr [JStr ''x''], JArr [JStr ''x''])
   \<and> fst (Blog_load (\<lambda>url. Responded \<lparr>status = 500, body_json = Some (JArr [JStr ''x''])\<rparr>)
        None (JArr []) []) = Inr (JArr [JStr ''x''])"
proof -
  let ?bad = "Responded \<lparr>status = 200, body_json = None\<rparr>"
  let ?err = "Responded \<lparr>status = 500, body_json = Some (JArr [JStr ''x''])\<rparr>"
  note down = failed_fetch_leaves_empty_list
    [of "\<lambda>url. NetworkFailure" None "[]" JNull "JArr []" "JArr []"]
  note garbled = failed_fetch_leaves_empty_list
    [of "\<lambda>url. ?bad" None "[]" JNull "JArr []" "JArr []"]
  note status = failed_fetch_leaves_empty_list
    [of "\<lambda>url. ?err" None "[]" "JArr [JStr ''x'']" "JArr []" "JArr []"]
  have f: "no_json NetworkFailure" "no_json ?bad" "json_body ?err (JArr [JStr ''x''])"
    by (simp_all add: no_json_def json_body_def)
  from down f(1) have p: "fst (Projects_load (\<lambda>url. NetworkFailure) None (JArr []) []) = Inr (JArr [])"
    by simp
  from down f(1) obtain edu where
    x: "fst (Experience_load (\<lambda>url. NetworkFailure) None []) = Inr (JArr [], edu)"
    by auto
  from down f(1) obtain xp where
    e: "fst (Experience_load (\<lambda>url. NetworkFailure) None []) = Inr (xp, JArr [])"
    by auto
  from x e have xe: "fst (Experience_load (\<lambda>url. NetworkFailure) None []) = Inr (JArr [], JArr [])"
    by simp
  from garbled f(2) have b: "fst (Blog_load (\<lambda>url. ?bad) None (JArr []) []) = Inr (JArr [])"
    by simp
  from status f(3) have sp:
    "fst (Projects_load (\<lambda>url. ?err) None (JArr []) []) = Inr (JArr [JStr ''x''])"
    by simp
  from status f(3) obtain edu' where
    sx: "fst (Experience_load (\<lambda>url. ?err) None []) = Inr (JArr [JStr ''x''], edu')"
    by auto
  from status f(3) obtain xp' where
    se: "fst (Experience_load (\<lambda>url. ?err) None []) = Inr (xp', JArr [JStr ''x''])"
    by auto
  from sx se have sxe:
    "fst (Experience_load (\<lambda>url. ?err) None []) = Inr (JArr [JStr ''x''], JArr [JStr ''x''])"
    by simp
  from status f(3) have sb:
    "fst (Blog_load (\<lambda>url. ?err) None (JArr []) []) = Inr (JArr [JStr ''x''])"
    by simp
  from f p xe b sp sxe sb show ?thesis by simp
qed

text \<open>
  The claim as stated fails for a status that is no success: a \<open>404\<close> whose body is the JSON
  object \<^verbatim>\<open>{"detail":"Not Found"}\<close> is a failure in the specification's list, yet its body
  becomes the state of the projects section, and rendering that state throws.
\<close>

theorem error_status_with_json_body_is_stored:
  "spec_fetch_failure
     (Responded \<lparr>status = 404, body_json = Some (JObj [(''detail'', JStr ''Not Found'')])\<rparr>)
   \<and> fst (Projects_load
        (\<lambda>url. Responded \<lparr>status = 404, body_json = Some (JObj [(''detail'', JStr ''Not Found'')])\<rparr>)
        None (JArr []) [])
      = Inr (JObj [(''detail'', JStr ''Not Found'')])
   \<and> JObj [(''detail'', JStr ''Not Found'')] \<noteq> JArr []
   \<and> Projects_render (JObj [(''detail'', JStr ''Not Found'')]) = Inl TypeError"
  by (simp add: spec_fetch_failure_def http_ok_def Projects_load_def Let_def then_p_def catch_p_def
      fetch_def res_json_def Projects_render_def array_map_def)

text \<open>
  C8. Mounting the page issues four requests, one to \<open>base/api/name\<close> for each of the four
  endpoint names, where \<open>base\<close> is the configured string; each loader adds to the requests
  made before it exactly the URLs of its own collections. With no base or an empty one the
  requests go to \<open>/api/name\<close> on the page's own origin.
\<close>

theorem one_request_per_endpoint:
  "count_list (page_requests net env) (backend_base env @ ''/api/'' @ endpoint_name e) = 1
   \<and> length (page_requests net env) = 4
   \<and> snd (Projects_load net env items log) = log @ [backend_base env @ ''/api/projects'']
   \<and> snd (Experience_load net env log) =
        log @ [backend_base env @ ''/api/experience'', backend_base env @ ''/api/education'']
   \<and> snd (Blog_load net env posts log) = log @ [backend_base env @ ''/api/posts'']
   \<and> backend_base (Some b) = b
   \<and> page_requests net None
       = [''/api/projects'', ''/api/experience'', ''/api/education'', ''/api/posts'']
   \<and> page_requests net (Some [])
       = [''/api/projects'', ''/api/experience'', ''/api/education'', ''/api/posts'']"
proof -
  have c: "count_list (page_requests net env) (backend_base env @ ''/api/'' @ endpoint_name e) = 1"
    by (cases e) (simp_all add: page_requests_eq)
  have l: "length (page_requests net env) = 4"
    by (simp add: page_requests_eq)
  have b: "backend_base (Some b) = b" "backend_base None = []" "backend_base (Some []) = []"
    by (simp_all add: backend_base_def str_or_def)
  have n: "page_requests net None
       = [''/api/projects'', ''/api/experience'', ''/api/education'', ''/api/posts'']"
    "page_requests net (Some [])
       = [''/api/projects'', ''/api/experience'', ''/api/education'', ''/api/posts'']"
    by (simp_all add: page_requests_eq b)
  from c l b(1) n load_logs [of net env] show ?thesis by simp
qed

section \<open>Properties of the rendering\<close>

lemma mount_children_valid:
  "list_all valid_child vs \<Longrightarrow> mount_children vs el = Inr el"
  by (simp add: mount_children_def)








end
